theory Spec2Isabelle
  imports Main
begin

chapter \<open>CinemaAbyss: the strangler-fig proxy and the events service\<close>

text \<open>
  Two Go programs are embedded: the gateway (proxy) that decides, per request, which
  upstream serves it, and the events service that publishes domain events to Kafka and
  runs one consumer per topic. Go strings are byte strings (\<open>string\<close>), Go's
  \<open>int\<close> is taken at 64 bits and written as \<open>int\<close> with the range checks of
  the library written out where the library makes them.
\<close>

section \<open>Shared helpers\<close>

type_synonym environ = "string \<rightharpoonup> string"

text \<open>\<open>getEnv\<close>: the value of an environment variable, or the fallback when it is unset.\<close>

definition getEnv :: "environ \<Rightarrow> string \<Rightarrow> string \<Rightarrow> string" where
  "getEnv env key fallback = (case env key of Some v \<Rightarrow> v | None \<Rightarrow> fallback)"

text \<open>\<open>strings.HasPrefix\<close>: \<open>len(s) >= len(prefix) && s[:len(prefix)] == prefix\<close>.\<close>

definition HasPrefix :: "string \<Rightarrow> string \<Rightarrow> bool" where
  "HasPrefix s pre = (length pre \<le> length s \<and> take (length pre) s = pre)"

section \<open>The gateway\<close>

subsection \<open>\<open>strconv.Atoi\<close>\<close>

text \<open>
  The library function behind \<open>parseMigrationPercent\<close>, for a 64-bit \<open>int\<close>: a
  fast path for strings of fewer than 19 bytes, and \<open>ParseInt(s, 10, 0)\<close> for the rest.
  Base 10 accepts no underscores and no prefix, only an optional sign and digits.
\<close>

datatype NumError = ErrSyntax | ErrRange

definition isDigit :: "char \<Rightarrow> bool" where
  "isDigit c = (48 \<le> (of_char c :: nat) \<and> (of_char c :: nat) \<le> 57)"

definition digitVal :: "char \<Rightarrow> nat" where
  "digitVal c = (of_char c :: nat) - 48"

definition isSign :: "char \<Rightarrow> bool" where
  "isSign c = (c = CHR ''-'' \<or> c = CHR ''+'')"

text \<open>The loop of the fast path: \<open>ch -= '0'; if ch > 9 { syntax error }; n = n*10 + int(ch)\<close>.\<close>

fun atoiFast :: "nat \<Rightarrow> string \<Rightarrow> NumError + nat" where
  "atoiFast n [] = Inr n"
| "atoiFast n (ch # s) =
     (if \<not> isDigit ch then Inl ErrSyntax else atoiFast (n * 10 + digitVal ch) s)"

text \<open>
  The loop of \<open>ParseUint\<close> at base 10 and 64 bits: a byte that is no digit is a syntax
  error; \<open>n >= cutoff\<close> (with \<open>cutoff = maxUint64/10 + 1\<close>) and a sum beyond
  \<open>maxUint64\<close> are range errors.
\<close>

definition maxUint64 :: nat where
  "maxUint64 = 2 ^ 64 - 1"

fun parseUintLoop :: "nat \<Rightarrow> string \<Rightarrow> NumError + nat" where
  "parseUintLoop n [] = Inr n"
| "parseUintLoop n (c # s) =
     (if \<not> isDigit c then Inl ErrSyntax
      else if n \<ge> maxUint64 div 10 + 1 then Inl ErrRange
      else if n * 10 + digitVal c > maxUint64 then Inl ErrRange
      else parseUintLoop (n * 10 + digitVal c) s)"

definition ParseUint :: "string \<Rightarrow> NumError + nat" where
  "ParseUint s = (if s = [] then Inl ErrSyntax else parseUintLoop 0 s)"

definition ParseInt :: "string \<Rightarrow> NumError + int" where
  "ParseInt s =
     (if s = [] then Inl ErrSyntax
      else
        let neg = (hd s = CHR ''-'');
            s1 = (if isSign (hd s) then tl s else s)
        in case ParseUint s1 of
             Inl e \<Rightarrow> Inl e
           | Inr un \<Rightarrow>
               if \<not> neg \<and> un \<ge> 2 ^ 63 then Inl ErrRange
               else if neg \<and> un > 2 ^ 63 then Inl ErrRange
               else Inr (if neg then - int un else int un))"

definition Atoi :: "string \<Rightarrow> NumError + int" where
  "Atoi s =
     (if 0 < length s \<and> length s < 19 then
        let s1 = (if isSign (hd s) then tl s else s)
        in if isSign (hd s) \<and> length s1 < 1 then Inl ErrSyntax
           else case atoiFast 0 s1 of
                  Inl e \<Rightarrow> Inl e
                | Inr n \<Rightarrow> Inr (if hd s = CHR ''-'' then - int n else int n)
      else ParseInt s)"

subsection \<open>Configuration\<close>

text \<open>
  \<open>ProxyConfig\<close>. The type \<open>'u\<close> is \<open>*url.URL\<close>; \<open>url.Parse\<close> is a parameter
  of \<open>loadConfig\<close>.
\<close>

record 'u ProxyConfig =
  Port :: string
  MonolithURL :: 'u
  MoviesServiceURL :: 'u
  EventsServiceURL :: 'u
  GradualMigration :: bool
  MoviesMigrationPercent :: int

text \<open>The log lines of the gateway, one constructor per \<open>log.Printf\<close> / \<open>log.Fatalf\<close> that is modelled.\<close>

datatype gateway_log =
    LogBadMigrationPercent string
  | LogFatalParseURL string

text \<open>
  \<open>parseMigrationPercent\<close>: the parsed percentage, or 0 with a log line when
  \<open>Atoi\<close> fails or the value is outside 0..100. The second component is what the call
  logs.
\<close>

definition parseMigrationPercent :: "string \<Rightarrow> int \<times> gateway_log list" where
  "parseMigrationPercent percentStr =
     (case Atoi percentStr of
        Inl err \<Rightarrow> (0, [LogBadMigrationPercent percentStr])
      | Inr percent \<Rightarrow>
          if percent < 0 \<or> percent > 100 then (0, [LogBadMigrationPercent percentStr])
          else (percent, []))"

text \<open>
  \<open>parseURL\<close>: \<open>log.Fatalf\<close> ends the process when \<open>url.Parse\<close> fails; that is
  the \<open>Inl\<close> result.
\<close>

definition parseURL :: "(string \<Rightarrow> 'u option) \<Rightarrow> string \<Rightarrow> string \<Rightarrow> gateway_log + 'u" where
  "parseURL url_Parse rawURL envVarName =
     (case url_Parse rawURL of None \<Rightarrow> Inl (LogFatalParseURL envVarName) | Some u \<Rightarrow> Inr u)"

text \<open>
  \<open>loadConfig\<close>: reads the environment, parses the three URLs (fatal on failure), then
  the percentage. The \<open>rand.New\<close> call at its start builds a generator that is
  dropped at once and leaves the shared source untouched, so it has no counterpart here.
\<close>

definition loadConfig ::
  "(string \<Rightarrow> 'u option) \<Rightarrow> environ \<Rightarrow> gateway_log + ('u ProxyConfig \<times> gateway_log list)" where
  "loadConfig url_Parse env =
     (let port = getEnv env ''PORT'' ''8000'';
          monolithURL = getEnv env ''MONOLITH_URL'' ''http://localhost:8080'';
          moviesServiceURL = getEnv env ''MOVIES_SERVICE_URL'' ''http://localhost:8081'';
          eventsServiceURL = getEnv env ''EVENTS_SERVICE_URL'' ''http://localhost:8082'';
          gradualMigration = (getEnv env ''GRADUAL_MIGRATION'' ''false'' = ''true'');
          migrationPercentStr = getEnv env ''MOVIES_MIGRATION_PERCENT'' ''0''
      in case parseURL url_Parse monolithURL ''MONOLITH_URL'' of
           Inl f \<Rightarrow> Inl f
         | Inr monoURL \<Rightarrow>
        (case parseURL url_Parse moviesServiceURL ''MOVIES_SERVICE_URL'' of
           Inl f \<Rightarrow> Inl f
         | Inr movURL \<Rightarrow>
        (case parseURL url_Parse eventsServiceURL ''EVENTS_SERVICE_URL'' of
           Inl f \<Rightarrow> Inl f
         | Inr evtURL \<Rightarrow>
             (let (migrationPercent, logged) = parseMigrationPercent migrationPercentStr
              in Inr (\<lparr>Port = port,
                        MonolithURL = monoURL,
                        MoviesServiceURL = movURL,
                        EventsServiceURL = evtURL,
                        GradualMigration = gradualMigration,
                        MoviesMigrationPercent = migrationPercent\<rparr>, logged)))))"

subsection \<open>The routing decision\<close>

text \<open>
  The shared random source of \<open>math/rand\<close>. Its generator is not part of the
  repository: the source is represented by the results its successive calls will produce
  (\<open>outcomes\<close>) and the number of calls made so far (\<open>calls\<close>). \<open>Intn n\<close>
  returns a value in \<open>[0, n)\<close> and advances the source; the only call of the program
  has \<open>n = 100\<close>.
\<close>

record rand_source =
  outcomes :: "nat \<Rightarrow> nat"
  calls :: nat

definition Intn :: "nat \<Rightarrow> rand_source \<Rightarrow> int \<times> rand_source" where
  "Intn n src = (int (outcomes src (calls src) mod n), src\<lparr>calls := calls src + 1\<rparr>)"

datatype 'u ReverseProxy = NewSingleHostReverseProxy 'u

definition createReverseProxy :: "'u \<Rightarrow> 'u ReverseProxy" where
  "createReverseProxy targetURL = NewSingleHostReverseProxy targetURL"

definition shouldRouteToMovies :: "'u ProxyConfig \<Rightarrow> rand_source \<Rightarrow> bool \<times> rand_source" where
  "shouldRouteToMovies config src =
     (if \<not> GradualMigration config then (False, src)
      else let (randomValue, src') = Intn 100 src
           in (randomValue < MoviesMigrationPercent config, src'))"

definition routeRequest ::
  "'u ProxyConfig \<Rightarrow> string \<Rightarrow> rand_source \<Rightarrow> ('u ReverseProxy \<times> string) \<times> rand_source" where
  "routeRequest config path src =
     (if HasPrefix path ''/api/movies'' then
        (let (toMovies, src') = shouldRouteToMovies config src
         in if toMovies then ((createReverseProxy (MoviesServiceURL config), ''movies-service''), src')
            else ((createReverseProxy (MonolithURL config), ''monolith''), src'))
      else if HasPrefix path ''/api/events'' then
        ((createReverseProxy (EventsServiceURL config), ''events-service''), src)
      else ((createReverseProxy (MonolithURL config), ''monolith''), src))"

subsection \<open>Decimal numerals, as the specification speaks of them\<close>

text \<open>
  The specification speaks of numeric strings and of their integer value. These
  definitions follow its words and are independent of \<open>Atoi\<close>: a numeric string is an
  optional sign followed by one or more decimal digits, and its value is the integer
  that numeral denotes.
\<close>

definition decimalValue :: "string \<Rightarrow> nat" where
  "decimalValue ds = foldl (\<lambda>a c. a * 10 + digitVal c) 0 ds"

definition allDigits :: "string \<Rightarrow> bool" where
  "allDigits ds = (ds \<noteq> [] \<and> list_all isDigit ds)"

definition numericString :: "string \<Rightarrow> bool" where
  "numericString s =
     (case s of [] \<Rightarrow> False | c # cs \<Rightarrow> if isSign c then allDigits cs else allDigits s)"

definition numericValue :: "string \<Rightarrow> int" where
  "numericValue s =
     (case s of [] \<Rightarrow> 0
      | c # cs \<Rightarrow> if c = CHR ''-'' then - int (decimalValue cs)
                  else if c = CHR ''+'' then int (decimalValue cs)
                  else int (decimalValue s))"

section \<open>The events service\<close>

subsection \<open>Events and topics\<close>

text \<open>
  The three event structs. \<open>'f\<close> is \<open>float64\<close> and \<open>'t\<close> is \<open>time.Time\<close>:
  neither type nor its parsing is part of the repository, so both are parameters. The
  \<open>validate:"required"\<close> tags of the fields are struct tags that only a validation
  library would read; no function of the program reads them.
\<close>

record MovieEvent =
  MovieID :: int
  Title :: string
  Action :: string
  UserID :: int

record 't UserEvent =
  UserID :: int
  Username :: string
  Action :: string
  Timestamp :: 't

record ('f, 't) PaymentEvent =
  PaymentID :: int
  UserID :: int
  Amount :: 'f
  Status :: string
  Timestamp :: 't

text \<open>\<open>eventData interface{}\<close>: a pointer to one of the three structs.\<close>

datatype ('f, 't) event =
    Movie MovieEvent
  | User "'t UserEvent"
  | Payment "('f, 't) PaymentEvent"

definition movieTopic :: string where
  "movieTopic = ''movie-events''"

definition userTopic :: string where
  "userTopic = ''user-events''"

definition paymentTopic :: string where
  "paymentTopic = ''payment-events''"

subsection \<open>The library: \<open>encoding/json\<close>, \<open>time\<close>, \<open>strconv\<close>\<close>

text \<open>
  A JSON value as the decoder's scanner delivers it. A number keeps its literal, since
  the decoder hands the literal to \<open>strconv\<close>; a string holds its unquoted bytes;
  an object keeps its members in order, duplicates included.
\<close>

datatype json =
    JNull
  | JBool bool
  | JNumber string
  | JString string
  | JArray "json list"
  | JObject "(string \<times> json) list"

text \<open>
  A request body: either no JSON value can be read from it (it is empty, or not
  well-formed JSON), or its first JSON value. \<open>Decode\<close> reads one value and lets the
  rest of the stream be.
\<close>

datatype body = NoJSON | JSON json

datatype decode_error =
    SyntaxError
  | UnmarshalTypeError string
  | TimeUnmarshalError
  | UnsupportedTypeError

text \<open>
  The functions of the library on the two parameter types: the zero values, the parser
  of a number literal into a \<open>float64\<close> (\<open>None\<close>: out of range), the parser of
  \<open>Time.UnmarshalJSON\<close> applied to a JSON string (\<open>None\<close>: not RFC 3339),
  \<open>Time.UTC\<close>, and \<open>json.Marshal\<close> of an event (\<open>None\<close>: an error).
\<close>

record ('f, 't) golib =
  zeroFloat :: 'f
  ParseFloat :: "string \<Rightarrow> 'f option"
  zeroTime :: 't
  TimeUnmarshalJSON :: "string \<Rightarrow> 't option"
  TimeUTC :: "'t \<Rightarrow> 't"
  Marshal :: "('f, 't) event \<Rightarrow> string option"

text \<open>
  Field lookup by name. The decoder takes the field whose name equals the key, and
  otherwise the field whose folded name equals the folded key. \<open>foldName\<close> maps ASCII
  letters to upper case and every other rune to the least rune of its case-folding
  orbit; the only such runes that fold to ASCII are the Kelvin sign (bytes E2 84 AA,
  to K) and the long s (bytes C5 BF, to S).
\<close>

definition toUpperASCII :: "char \<Rightarrow> char" where
  "toUpperASCII c =
     (if 97 \<le> (of_char c :: nat) \<and> (of_char c :: nat) \<le> 122
      then char_of ((of_char c :: nat) - 32) else c)"

fun foldName :: "string \<Rightarrow> string" where
  "foldName [] = []"
| "foldName [a] = [toUpperASCII a]"
| "foldName [a, b] =
     (if a = CHR 0xC5 \<and> b = CHR 0xBF then ''S'' else toUpperASCII a # foldName [b])"
| "foldName (a # b # c # s) =
     (if a = CHR 0xE2 \<and> b = CHR 0x84 \<and> c = CHR 0xAA then CHR ''K'' # foldName s
      else if a = CHR 0xC5 \<and> b = CHR 0xBF then CHR ''S'' # foldName (c # s)
      else toUpperASCII a # foldName (b # c # s))"

definition fieldMatches :: "string \<Rightarrow> string \<Rightarrow> bool" where
  "fieldMatches name key = (key = name \<or> foldName key = foldName name)"

text \<open>
  What decoding one member value into one field does: \<open>null\<close> leaves the field as it
  is; a value of the wrong kind, or a number that does not fit, saves an
  \<open>UnmarshalTypeError\<close> and decoding goes on; an error of \<open>Time.UnmarshalJSON\<close>
  ends decoding at once.
\<close>

datatype 'a stored = Keep | Store 'a | TypeErr decode_error | Abort decode_error

fun storeInt :: "json \<Rightarrow> int stored" where
  "storeInt JNull = Keep"
| "storeInt (JNumber lit) =
     (case ParseInt lit of Inr n \<Rightarrow> Store n | Inl e \<Rightarrow> TypeErr (UnmarshalTypeError ''int''))"
| "storeInt v = TypeErr (UnmarshalTypeError ''int'')"

fun storeString :: "json \<Rightarrow> string stored" where
  "storeString JNull = Keep"
| "storeString (JString s) = Store s"
| "storeString v = TypeErr (UnmarshalTypeError ''string'')"

fun storeFloat :: "('f, 't) golib \<Rightarrow> json \<Rightarrow> 'f stored" where
  "storeFloat lib JNull = Keep"
| "storeFloat lib (JNumber lit) =
     (case ParseFloat lib lit of Some x \<Rightarrow> Store x | None \<Rightarrow> TypeErr (UnmarshalTypeError ''float64''))"
| "storeFloat lib v = TypeErr (UnmarshalTypeError ''float64'')"

fun storeTime :: "('f, 't) golib \<Rightarrow> json \<Rightarrow> 't stored" where
  "storeTime lib JNull = Keep"
| "storeTime lib (JString s) =
     (case TimeUnmarshalJSON lib s of Some t \<Rightarrow> Store t | None \<Rightarrow> Abort TimeUnmarshalError)"
| "storeTime lib v = Abort TimeUnmarshalError"

fun mapStored :: "('a \<Rightarrow> 'b) \<Rightarrow> 'a stored \<Rightarrow> 'b stored" where
  "mapStored f Keep = Keep"
| "mapStored f (Store x) = Store (f x)"
| "mapStored f (TypeErr e) = TypeErr e"
| "mapStored f (Abort e) = Abort e"

text \<open>One member of a JSON object decoded into each struct; a key that names no field is skipped.\<close>

definition setMovieField :: "MovieEvent \<Rightarrow> string \<Rightarrow> json \<Rightarrow> MovieEvent stored" where
  "setMovieField ev key v =
     (if fieldMatches ''movie_id'' key then mapStored (\<lambda>n. ev\<lparr>MovieID := n\<rparr>) (storeInt v)
      else if fieldMatches ''title'' key then mapStored (\<lambda>s. ev\<lparr>Title := s\<rparr>) (storeString v)
      else if fieldMatches ''action'' key then
        mapStored (\<lambda>s. ev\<lparr>MovieEvent.Action := s\<rparr>) (storeString v)
      else if fieldMatches ''user_id'' key then
        mapStored (\<lambda>n. ev\<lparr>MovieEvent.UserID := n\<rparr>) (storeInt v)
      else Keep)"

definition setUserField ::
  "('f, 't) golib \<Rightarrow> 't UserEvent \<Rightarrow> string \<Rightarrow> json \<Rightarrow> 't UserEvent stored" where
  "setUserField lib ev key v =
     (if fieldMatches ''user_id'' key then
        mapStored (\<lambda>n. ev\<lparr>UserEvent.UserID := n\<rparr>) (storeInt v)
      else if fieldMatches ''username'' key then
        mapStored (\<lambda>s. ev\<lparr>Username := s\<rparr>) (storeString v)
      else if fieldMatches ''action'' key then
        mapStored (\<lambda>s. ev\<lparr>UserEvent.Action := s\<rparr>) (storeString v)
      else if fieldMatches ''timestamp'' key then
        mapStored (\<lambda>t. ev\<lparr>UserEvent.Timestamp := t\<rparr>) (storeTime lib v)
      else Keep)"

definition setPaymentField ::
  "('f, 't) golib \<Rightarrow> ('f, 't) PaymentEvent \<Rightarrow> string \<Rightarrow> json \<Rightarrow> ('f, 't) PaymentEvent stored" where
  "setPaymentField lib ev key v =
     (if fieldMatches ''payment_id'' key then
        mapStored (\<lambda>n. ev\<lparr>PaymentID := n\<rparr>) (storeInt v)
      else if fieldMatches ''user_id'' key then
        mapStored (\<lambda>n. ev\<lparr>PaymentEvent.UserID := n\<rparr>) (storeInt v)
      else if fieldMatches ''amount'' key then
        mapStored (\<lambda>x. ev\<lparr>Amount := x\<rparr>) (storeFloat lib v)
      else if fieldMatches ''status'' key then
        mapStored (\<lambda>s. ev\<lparr>Status := s\<rparr>) (storeString v)
      else if fieldMatches ''timestamp'' key then
        mapStored (\<lambda>t. ev\<lparr>PaymentEvent.Timestamp := t\<rparr>) (storeTime lib v)
      else Keep)"

text \<open>
  The members of an object, in order. The first saved type error is kept while decoding
  goes on; an abort returns at once.
\<close>

fun decodeMembers ::
  "('e \<Rightarrow> string \<Rightarrow> json \<Rightarrow> 'e stored) \<Rightarrow> (string \<times> json) list \<Rightarrow> 'e \<Rightarrow> decode_error option
     \<Rightarrow> decode_error + ('e \<times> decode_error option)" where
  "decodeMembers setField [] ev saved = Inr (ev, saved)"
| "decodeMembers setField ((key, v) # members) ev saved =
     (case setField ev key v of
        Keep \<Rightarrow> decodeMembers setField members ev saved
      | Store ev' \<Rightarrow> decodeMembers setField members ev' saved
      | TypeErr e \<Rightarrow>
          decodeMembers setField members ev (if saved = None then Some e else saved)
      | Abort e \<Rightarrow> Inl e)"

text \<open>
  \<open>Decode\<close> into a pointer to a struct: \<open>null\<close> changes nothing and is no error; an
  object is decoded member by member, and a saved type error is returned at the end;
  any other value is a type error.
\<close>

definition decodeStruct ::
  "('e \<Rightarrow> string \<Rightarrow> json \<Rightarrow> 'e stored) \<Rightarrow> 'e \<Rightarrow> body \<Rightarrow> decode_error + 'e" where
  "decodeStruct setField zero b =
     (case b of
        NoJSON \<Rightarrow> Inl SyntaxError
      | JSON JNull \<Rightarrow> Inr zero
      | JSON (JObject members) \<Rightarrow>
          (case decodeMembers setField members zero None of
             Inl e \<Rightarrow> Inl e
           | Inr (ev, Some e) \<Rightarrow> Inl e
           | Inr (ev, None) \<Rightarrow> Inr ev)
      | JSON v \<Rightarrow> Inl (UnmarshalTypeError ''struct''))"

subsection \<open>HTTP requests and responses\<close>

record request =
  Method :: string
  Body :: body

text \<open>
  A Go value handed to the JSON encoder of a response, and the body of a response: a
  line of text (\<open>http.Error\<close> prints the message and a newline), the text of a decode
  error, or the encoding of a map by \<open>json.NewEncoder(w).Encode\<close>, listed in key order
  as the encoder writes it.
\<close>

datatype 't govalue = GoString string | GoBool bool | GoTime 't

datatype 't response_body =
    TextLine string
  | ErrorLine decode_error
  | EncodedMap "(string \<times> 't govalue) list"

record 't response =
  status :: int
  headers :: "(string \<times> string) list"
  content :: "'t response_body"

definition StatusOK :: int where "StatusOK = 200"
definition StatusCreated :: int where "StatusCreated = 201"
definition StatusBadRequest :: int where "StatusBadRequest = 400"
definition StatusMethodNotAllowed :: int where "StatusMethodNotAllowed = 405"
definition StatusInternalServerError :: int where "StatusInternalServerError = 500"

definition MethodPost :: string where "MethodPost = ''POST''"

text \<open>\<open>http.Error\<close>: a plain-text response with the given status.\<close>

definition httpError :: "'t response_body \<Rightarrow> int \<Rightarrow> 't response" where
  "httpError msg code =
     \<lparr>status = code,
      headers = [(''Content-Type'', ''text/plain; charset=utf-8''),
                 (''X-Content-Type-Options'', ''nosniff'')],
      content = msg\<rparr>"

text \<open>
  The three messages of the handlers, in Russian in the source; here as their UTF-8
  bytes. In order: "method not supported", "error processing the event", "event
  processed successfully".
\<close>

definition msgMethodNotSupported :: string where
  "msgMethodNotSupported =
     [CHR 0xD0, CHR 0x9C, CHR 0xD0, CHR 0xB5, CHR 0xD1, CHR 0x82, CHR 0xD0, CHR 0xBE,
      CHR 0xD0, CHR 0xB4, CHR 0x20, CHR 0xD0, CHR 0xBD, CHR 0xD0, CHR 0xB5, CHR 0x20,
      CHR 0xD0, CHR 0xBF, CHR 0xD0, CHR 0xBE, CHR 0xD0, CHR 0xB4, CHR 0xD0, CHR 0xB4,
      CHR 0xD0, CHR 0xB5, CHR 0xD1, CHR 0x80, CHR 0xD0, CHR 0xB6, CHR 0xD0, CHR 0xB8,
      CHR 0xD0, CHR 0xB2, CHR 0xD0, CHR 0xB0, CHR 0xD0, CHR 0xB5, CHR 0xD1, CHR 0x82,
      CHR 0xD1, CHR 0x81, CHR 0xD1, CHR 0x8F]"

definition msgProcessingError :: string where
  "msgProcessingError =
     [CHR 0xD0, CHR 0x9E, CHR 0xD1, CHR 0x88, CHR 0xD0, CHR 0xB8, CHR 0xD0, CHR 0xB1,
      CHR 0xD0, CHR 0xBA, CHR 0xD0, CHR 0xB0, CHR 0x20, CHR 0xD0, CHR 0xBE, CHR 0xD0,
      CHR 0xB1, CHR 0xD1, CHR 0x80, CHR 0xD0, CHR 0xB0, CHR 0xD0, CHR 0xB1, CHR 0xD0,
      CHR 0xBE, CHR 0xD1, CHR 0x82, CHR 0xD0, CHR 0xBA, CHR 0xD0, CHR 0xB8, CHR 0x20,
      CHR 0xD1, CHR 0x81, CHR 0xD0, CHR 0xBE, CHR 0xD0, CHR 0xB1, CHR 0xD1, CHR 0x8B,
      CHR 0xD1, CHR 0x82, CHR 0xD0, CHR 0xB8, CHR 0xD1, CHR 0x8F]"

definition msgProcessed :: string where
  "msgProcessed =
     [CHR 0xD0, CHR 0xA1, CHR 0xD0, CHR 0xBE, CHR 0xD0, CHR 0xB1, CHR 0xD1, CHR 0x8B,
      CHR 0xD1, CHR 0x82, CHR 0xD0, CHR 0xB8, CHR 0xD0, CHR 0xB5, CHR 0x20, CHR 0xD1,
      CHR 0x83, CHR 0xD1, CHR 0x81, CHR 0xD0, CHR 0xBF, CHR 0xD0, CHR 0xB5, CHR 0xD1,
      CHR 0x88, CHR 0xD0, CHR 0xBD, CHR 0xD0, CHR 0xBE, CHR 0x20, CHR 0xD0, CHR 0xBE,
      CHR 0xD0, CHR 0xB1, CHR 0xD1, CHR 0x80, CHR 0xD0, CHR 0xB0, CHR 0xD0, CHR 0xB1,
      CHR 0xD0, CHR 0xBE, CHR 0xD1, CHR 0x82, CHR 0xD0, CHR 0xB0, CHR 0xD0, CHR 0xBD,
      CHR 0xD0, CHR 0xBE]"

subsection \<open>Kafka, the log and the state of the process\<close>

text \<open>
  \<open>kafka.Message\<close> with the fields the program uses, the writer built by
  \<open>initKafkaWriter\<close> and the reader configuration of \<open>consumeTopic\<close>.
\<close>

record Message =
  Topic :: string
  Offset :: int
  Value :: string

datatype balancer = LeastBytes

record Writer =
  Addr :: "string list"
  Balancer :: balancer

record ReaderConfig =
  Brokers :: "string list"
  ReaderTopic :: string
  GroupID :: string
  MinBytes :: int
  MaxBytes :: int

text \<open>An error of the Kafka client, by its text; the error \<open>sendToKafka\<close> returns.\<close>

datatype send_error = MarshalError | WriteError string

text \<open>The log lines of the events service, one constructor per \<open>log.Printf\<close>, with its arguments.\<close>

datatype log_entry =
    LogSendFailed send_error
  | LogMessageSent string string
  | LogConsumerStarted string
  | LogReadFailed string string
  | LogConsumed string int string

text \<open>
  What a run does to the world outside its return value, in order: the one-time
  construction of the writer, a \<open>Decode\<close> of a request body (by topic), a call of
  \<open>WriteMessages\<close>, the construction of a reader, a call of \<open>ReadMessage\<close> with
  its result, a log line, and the two deferred calls of a consumer.
\<close>

datatype effect =
    InitKafkaWriter Writer
  | DecodeBody string
  | WriteMessages Writer Message
  | NewReader ReaderConfig
  | ReadMessage "string + Message"
  | LogPrintf log_entry
  | ReaderClose
  | WaitGroupDone

text \<open>
  The package-level variables \<open>kafkaWriter\<close> (\<open>None\<close> is \<open>nil\<close>) and \<open>once\<close>
  (whether its function has run), and the effects so far.
\<close>

record world =
  kafkaWriter :: "Writer option"
  once :: bool
  trace :: "effect list"

text \<open>
  What the process runs in: the library, the environment variables, and the broker,
  which answers a write with \<open>None\<close> (accepted) or the text of an error.
\<close>

record ('f, 't) runtime =
  lib :: "('f, 't) golib"
  environment :: environ
  brokerWrite :: "Message \<Rightarrow> string option"

text \<open>A call either returns or panics (a nil dereference).\<close>

datatype 'a outcome = Panic | Return 'a

definition emit :: "effect \<Rightarrow> world \<Rightarrow> world" where
  "emit e w = w\<lparr>trace := trace w @ [e]\<rparr>"

text \<open>\<open>strings.Split(s, sep)\<close> for a one-byte separator: the empty string gives one empty piece.\<close>

fun Split :: "string \<Rightarrow> char \<Rightarrow> string list" where
  "Split [] sep = [[]]"
| "Split (c # s) sep =
     (if c = sep then [] # Split s sep
      else (c # hd (Split s sep)) # tl (Split s sep))"

definition initKafkaWriter :: "environ \<Rightarrow> Writer" where
  "initKafkaWriter env =
     (let kafkaBrokers = getEnv env ''KAFKA_BROKERS'' ''localhost:9092'';
          brokers = Split kafkaBrokers CHR '',''
      in \<lparr>Addr = brokers, Balancer = LeastBytes\<rparr>)"

text \<open>
  \<open>getKafkaWriter\<close>: \<open>once.Do\<close> runs its function on the first call only; the
  variable is returned as it then stands. Calls are taken one at a time.
\<close>

definition getKafkaWriter :: "environ \<Rightarrow> world \<Rightarrow> Writer option \<times> world" where
  "getKafkaWriter env w =
     (let w1 = (if once w then w
                else emit (InitKafkaWriter (initKafkaWriter env))
                       (w\<lparr>kafkaWriter := Some (initKafkaWriter env), once := True\<rparr>))
      in (kafkaWriter w1, w1))"

subsection \<open>The handlers\<close>

text \<open>
  \<open>parseEventData\<close>: the struct is chosen by the topic and the body decoded into it.
  A topic that is none of the three returns an \<open>UnsupportedTypeError\<close> without
  reading the body.
\<close>

definition zeroMovieEvent :: MovieEvent where
  "zeroMovieEvent = \<lparr>MovieID = 0, Title = '''', MovieEvent.Action = '''', MovieEvent.UserID = 0\<rparr>"

definition zeroUserEvent :: "('f, 't) golib \<Rightarrow> 't UserEvent" where
  "zeroUserEvent l =
     \<lparr>UserEvent.UserID = 0, Username = '''', UserEvent.Action = '''',
      UserEvent.Timestamp = zeroTime l\<rparr>"

definition zeroPaymentEvent :: "('f, 't) golib \<Rightarrow> ('f, 't) PaymentEvent" where
  "zeroPaymentEvent l =
     \<lparr>PaymentID = 0, PaymentEvent.UserID = 0, Amount = zeroFloat l, Status = '''',
      PaymentEvent.Timestamp = zeroTime l\<rparr>"

definition parseEventData ::
  "('f, 't) runtime \<Rightarrow> string \<Rightarrow> request \<Rightarrow> world \<Rightarrow> (decode_error + ('f, 't) event) \<times> world" where
  "parseEventData rt topic r w =
     (if topic = movieTopic then
        (map_sum id Movie (decodeStruct setMovieField zeroMovieEvent (Body r)),
         emit (DecodeBody topic) w)
      else if topic = userTopic then
        (map_sum id User (decodeStruct (setUserField (lib rt)) (zeroUserEvent (lib rt)) (Body r)),
         emit (DecodeBody topic) w)
      else if topic = paymentTopic then
        (map_sum id Payment
           (decodeStruct (setPaymentField (lib rt)) (zeroPaymentEvent (lib rt)) (Body r)),
         emit (DecodeBody topic) w)
      else (Inl UnsupportedTypeError, w))"

text \<open>
  \<open>sendToKafka\<close>: marshal, fetch the writer, write one message. \<open>None\<close> is the
  \<open>nil\<close> error. A \<open>nil\<close> writer would make \<open>WriteMessages\<close> panic.
\<close>

definition sendToKafka ::
  "('f, 't) runtime \<Rightarrow> string \<Rightarrow> ('f, 't) event \<Rightarrow> world \<Rightarrow> send_error option outcome \<times> world" where
  "sendToKafka rt topic eventData w =
     (case Marshal (lib rt) eventData of
        None \<Rightarrow> (Return (Some MarshalError), w)
      | Some eventBytes \<Rightarrow>
          (let (writer, w1) = getKafkaWriter (environment rt) w;
               message = \<lparr>Topic = topic, Offset = 0, Value = eventBytes\<rparr>
           in case writer of
                None \<Rightarrow> (Panic, w1)
              | Some wr \<Rightarrow>
                  (Return (map_option WriteError (brokerWrite rt message)),
                   emit (WriteMessages wr message) w1)))"

text \<open>
  \<open>sendSuccessResponse\<close>: marshals the event again for the log line (an error gives
  the empty text), then answers 201 with the JSON encoding of the two-entry map.
\<close>

definition sendSuccessResponse ::
  "('f, 't) runtime \<Rightarrow> string \<Rightarrow> ('f, 't) event \<Rightarrow> world \<Rightarrow> 't response \<times> world" where
  "sendSuccessResponse rt topic eventData w =
     (let eventBytes = (case Marshal (lib rt) eventData of Some b \<Rightarrow> b | None \<Rightarrow> '''');
          w1 = emit (LogPrintf (LogMessageSent topic eventBytes)) w
      in (\<lparr>status = StatusCreated,
           headers = [(''Content-Type'', ''application/json'')],
           content = EncodedMap [(''message'', GoString msgProcessed),
                                 (''status'', GoString ''success'')]\<rparr>, w1))"

text \<open>
  \<open>handleEvent topic\<close>, the handler of one event endpoint. The text of an
  \<open>UnsupportedTypeError\<close> built without a type cannot be produced: its \<open>Error\<close>
  method dereferences the missing type, so that branch panics.
\<close>

definition handleEvent ::
  "('f, 't) runtime \<Rightarrow> string \<Rightarrow> request \<Rightarrow> world \<Rightarrow> 't response outcome \<times> world" where
  "handleEvent rt topic r w =
     (if Method r \<noteq> MethodPost then
        (Return (httpError (TextLine msgMethodNotSupported) StatusMethodNotAllowed), w)
      else
        case parseEventData rt topic r w of
          (Inl err, w1) \<Rightarrow>
            (if err = UnsupportedTypeError then (Panic, w1)
             else (Return (httpError (ErrorLine err) StatusBadRequest), w1))
        | (Inr eventData, w1) \<Rightarrow>
            (case sendToKafka rt topic eventData w1 of
               (Panic, w2) \<Rightarrow> (Panic, w2)
             | (Return (Some err), w2) \<Rightarrow>
                 (Return (httpError (TextLine msgProcessingError) StatusInternalServerError),
                  emit (LogPrintf (LogSendFailed err)) w2)
             | (Return None, w2) \<Rightarrow>
                 (let (resp, w3) = sendSuccessResponse rt topic eventData w2
                  in (Return resp, w3))))"

text \<open>
  \<open>healthCheckHandler\<close>: \<open>now\<close> is what \<open>time.Now()\<close> returns. The method of
  the request is not looked at.
\<close>

definition healthCheckHandler :: "('f, 't) runtime \<Rightarrow> 't \<Rightarrow> request \<Rightarrow> 't response" where
  "healthCheckHandler rt now r =
     \<lparr>status = StatusOK,
      headers = [(''Content-Type'', ''application/json'')],
      content = EncodedMap [(''service'', GoString ''events-service''),
                            (''status'', GoBool True),
                            (''timestamp'', GoTime (TimeUTC (lib rt) now))]\<rparr>"

text \<open>
  The four patterns \<open>main\<close> registers on the default mux. Each is a fixed path with no
  method, so it matches that path for every method; \<open>None\<close> stands for a path the mux
  answers itself.
\<close>

datatype handler = EventHandler string | HealthHandler

definition registered :: "string \<Rightarrow> handler option" where
  "registered path =
     (if path = ''/api/events/movie'' then Some (EventHandler movieTopic)
      else if path = ''/api/events/user'' then Some (EventHandler userTopic)
      else if path = ''/api/events/payment'' then Some (EventHandler paymentTopic)
      else if path = ''/api/events/health'' then Some HealthHandler
      else None)"

definition serveHTTP ::
  "('f, 't) runtime \<Rightarrow> 't \<Rightarrow> string \<Rightarrow> request \<Rightarrow> world \<Rightarrow> ('t response outcome \<times> world) option" where
  "serveHTTP rt now path r w =
     (case registered path of
        None \<Rightarrow> None
      | Some (EventHandler topic) \<Rightarrow> Some (handleEvent rt topic r w)
      | Some HealthHandler \<Rightarrow> Some (Return (healthCheckHandler rt now r), w))"

subsection \<open>The consumers\<close>

text \<open>
  A consumer is run against the results its successive \<open>ReadMessage\<close> calls will get
  from the broker: an error text or a message. When the results run out the call
  blocks, and the task is \<open>Blocked\<close> inside its loop; \<open>Terminated\<close> is the task
  after \<open>consumeTopic\<close> has returned. The loop has no other exit than a read error.
\<close>

datatype task = Blocked | Terminated

fun readLoop ::
  "string \<Rightarrow> (string + Message) list \<Rightarrow> effect list
     \<Rightarrow> task \<times> effect list \<times> (string + Message) list" where
  "readLoop topic [] tr = (Blocked, tr, [])"
| "readLoop topic (Inl err # rest) tr =
     (Terminated, tr @ [ReadMessage (Inl err), LogPrintf (LogReadFailed topic err)], rest)"
| "readLoop topic (Inr message # rest) tr =
     readLoop topic rest
       (tr @ [ReadMessage (Inr message),
              LogPrintf (LogConsumed (Topic message) (Offset message) (Value message))])"

definition readerConfig :: "environ \<Rightarrow> string \<Rightarrow> ReaderConfig" where
  "readerConfig env topic =
     (let kafkaBrokers = getEnv env ''KAFKA_BROKERS'' ''localhost:9092'';
          brokers = Split kafkaBrokers CHR '',''
      in \<lparr>Brokers = brokers, ReaderTopic = topic,
          GroupID = ''cinemaabyss-events-consumer-group'',
          MinBytes = 10000, MaxBytes = 10000000\<rparr>)"

text \<open>
  \<open>consumeTopic\<close>: the reader, the start line, the loop, and on return the deferred
  \<open>reader.Close()\<close> and \<open>wg.Done()\<close>. The result is the state of the task, its
  effects, and the broker results it never asked for.
\<close>

definition consumeTopic ::
  "environ \<Rightarrow> string \<Rightarrow> (string + Message) list \<Rightarrow> task \<times> effect list \<times> (string + Message) list" where
  "consumeTopic env topic results =
     (case readLoop topic results
             [NewReader (readerConfig env topic), LogPrintf (LogConsumerStarted topic)] of
        (Blocked, tr, rest) \<Rightarrow> (Blocked, tr, rest)
      | (Terminated, tr, rest) \<Rightarrow> (Terminated, tr @ [ReaderClose, WaitGroupDone], rest))"

text \<open>
  \<open>main\<close> starts one consumer per topic, once; nothing starts a consumer again.
  \<open>feed topic\<close> is what the broker will answer the reads of that topic's reader.
\<close>

definition topics :: "string list" where
  "topics = [movieTopic, userTopic, paymentTopic]"

definition startConsumers ::
  "environ \<Rightarrow> (string \<Rightarrow> (string + Message) list)
     \<Rightarrow> (string \<times> task \<times> effect list \<times> (string + Message) list) list" where
  "startConsumers env feed = map (\<lambda>topic. (topic, consumeTopic env topic (feed topic))) topics"

subsection \<open>Auxiliary notions of the properties\<close>

text \<open>
  \<open>main\<close> calls \<open>getKafkaWriter\<close> before it serves requests. From then on the
  writer is set (\<open>writerReady\<close>), and no handler changes it.
\<close>

definition writerReady :: "world \<Rightarrow> Writer \<Rightarrow> bool" where
  "writerReady w wr = (once w \<and> kafkaWriter w = Some wr)"

text \<open>The effects of reading and logging the messages \<open>ms\<close>, one after the other.\<close>

definition consumed :: "Message list \<Rightarrow> effect list" where
  "consumed ms =
     concat (map (\<lambda>message.
        [ReadMessage (Inr message),
         LogPrintf (LogConsumed (Topic message) (Offset message) (Value message))]) ms)"

text \<open>\<open>n\<close> calls of \<open>getKafkaWriter\<close>, one after the other, and what each returns.\<close>

fun getKafkaWriterTimes :: "nat \<Rightarrow> environ \<Rightarrow> world \<Rightarrow> Writer option list \<times> world" where
  "getKafkaWriterTimes 0 env w = ([], w)"
| "getKafkaWriterTimes (Suc n) env w =
     (let (wr, w1) = getKafkaWriter env w;
          (wrs, w2) = getKafkaWriterTimes n env w1
      in (wr # wrs, w2))"

subsection \<open>An instance for the examples\<close>

text \<open>
  The examples need a library, a runtime and a world. Floats and times are taken as
  integers there; \<open>Marshal\<close> is given at the two movie events the examples send, with
  the bytes \<open>json.Marshal\<close> produces for them. \<open>servingWorld\<close> is the world after
  the first call of \<open>getKafkaWriter\<close> with no \<open>KAFKA_BROKERS\<close> variable set.
\<close>

definition exampleMarshal :: "(int, int) event \<Rightarrow> string option" where
  "exampleMarshal ev =
     (if ev = Movie \<lparr>MovieID = 1, Title = ''Dune'', MovieEvent.Action = ''viewed'',
                     MovieEvent.UserID = 42\<rparr>
      then Some ''{\"movie_id\":1,\"title\":\"Dune\",\"action\":\"viewed\",\"user_id\":42}''
      else if ev = Movie \<lparr>MovieID = 0, Title = ''Dune'', MovieEvent.Action = '''',
                          MovieEvent.UserID = 0\<rparr>
      then Some ''{\"movie_id\":0,\"title\":\"Dune\",\"action\":\"\",\"user_id\":0}''
      else None)"

definition exampleLib :: "(int, int) golib" where
  "exampleLib =
     \<lparr>zeroFloat = 0, ParseFloat = (\<lambda>lit. None), zeroTime = 0,
      TimeUnmarshalJSON = (\<lambda>s. None), TimeUTC = (\<lambda>t. t), Marshal = exampleMarshal\<rparr>"

definition exampleRuntime :: "(Message \<Rightarrow> string option) \<Rightarrow> (int, int) runtime" where
  "exampleRuntime broker = \<lparr>lib = exampleLib, environment = Map.empty, brokerWrite = broker\<rparr>"

definition exampleWriter :: Writer where
  "exampleWriter = \<lparr>Addr = [''localhost:9092''], Balancer = LeastBytes\<rparr>"

definition servingWorld :: world where
  "servingWorld =
     \<lparr>kafkaWriter = Some exampleWriter, once = True, trace = [InitKafkaWriter exampleWriter]\<rparr>"

definition postJSON :: "json \<Rightarrow> request" where
  "postJSON v = \<lparr>Method = ''POST'', Body = JSON v\<rparr>"

section \<open>Properties of the gateway\<close>

subsection \<open>\<open>Atoi\<close> against the decimal numerals\<close>

lemma foldl_digits_ge: "n \<le> foldl (\<lambda>a c. a * 10 + digitVal c) n ds"
proof (induction ds arbitrary: n)
  case Nil
  show ?case by simp
next
  case (Cons c ds)
  have "n \<le> n * 10 + digitVal c" by simp
  also have "\<dots> \<le> foldl (\<lambda>a c. a * 10 + digitVal c) (n * 10 + digitVal c) ds"
    by (rule Cons.IH)
  finally show ?case by simp
qed

lemma atoiFast_eq:
  "atoiFast n ds =
     (if list_all isDigit ds then Inr (foldl (\<lambda>a c. a * 10 + digitVal c) n ds) else Inl ErrSyntax)"
  by (induction ds arbitrary: n) auto

lemma parseUintLoop_not_digits:
  "\<not> list_all isDigit ds \<Longrightarrow> \<exists>e. parseUintLoop n ds = Inl e"
  by (induction ds arbitrary: n) auto

lemma parseUintLoop_digits:
  "list_all isDigit ds \<Longrightarrow> n \<le> maxUint64 \<Longrightarrow>
     (parseUintLoop n ds = Inr (foldl (\<lambda>a c. a * 10 + digitVal c) n ds)
        \<and> foldl (\<lambda>a c. a * 10 + digitVal c) n ds \<le> maxUint64)
     \<or> (parseUintLoop n ds = Inl ErrRange
        \<and> foldl (\<lambda>a c. a * 10 + digitVal c) n ds > maxUint64)"
proof (induction ds arbitrary: n)
  case Nil
  then show ?case by simp
next
  case (Cons c ds)
  let ?m = "n * 10 + digitVal c"
  have ge: "?m \<le> foldl (\<lambda>a c. a * 10 + digitVal c) ?m ds" by (rule foldl_digits_ge)
  show ?case
  proof (cases "n \<ge> maxUint64 div 10 + 1 \<or> ?m > maxUint64")
    case True
    then have "?m > maxUint64" by (auto simp: maxUint64_def)
    with ge True Cons.prems show ?thesis by auto
  next
    case False
    with Cons.IH[of ?m] Cons.prems show ?thesis by (auto simp: not_less)
  qed
qed


lemma foldl_digits_less:
  "list_all isDigit ds \<Longrightarrow> foldl (\<lambda>a c. a * 10 + digitVal c) n ds < (n + 1) * 10 ^ length ds"
proof (induction ds arbitrary: n)
  case Nil
  show ?case by simp
next
  case (Cons c ds)
  from Cons.prems have rest: "list_all isDigit ds" and "isDigit c" by simp_all
  then have d: "digitVal c \<le> 9" unfolding isDigit_def digitVal_def by arith
  have "foldl (\<lambda>a c. a * 10 + digitVal c) (n * 10 + digitVal c) ds
          < (n * 10 + digitVal c + 1) * 10 ^ length ds"
    by (rule Cons.IH[OF rest])
  also have "\<dots> \<le> ((n + 1) * 10) * 10 ^ length ds"
    using d by (intro mult_right_mono) auto
  also have "\<dots> = (n + 1) * 10 ^ length (c # ds)" by (simp add: algebra_simps)
  finally show ?case by simp
qed

lemma decimalValue_less: "list_all isDigit ds \<Longrightarrow> decimalValue ds < 10 ^ length ds"
  using foldl_digits_less[of ds 0] by (simp add: decimalValue_def)

lemma decimalValue_short:
  assumes "list_all isDigit ds" and "length ds \<le> 18"
  shows "decimalValue ds < 2 ^ 63"
proof -
  have "decimalValue ds < 10 ^ length ds" by (rule decimalValue_less[OF assms(1)])
  also have "(10::nat) ^ length ds \<le> 10 ^ 18"
    using assms(2) by (intro power_increasing) auto
  also have "(10::nat) ^ 18 < 2 ^ 63" by simp
  finally show ?thesis .
qed

lemma ParseUint_digits:
  assumes "list_all isDigit ds" and "ds \<noteq> []"
  shows "(ParseUint ds = Inr (decimalValue ds) \<and> decimalValue ds \<le> maxUint64)
         \<or> (ParseUint ds = Inl ErrRange \<and> decimalValue ds > maxUint64)"
  using parseUintLoop_digits[OF assms(1), of 0] assms(2)
  by (simp add: ParseUint_def decimalValue_def)

lemma ParseUint_not_digits:
  "\<not> allDigits ds \<Longrightarrow> \<exists>e. ParseUint ds = Inl e"
  using parseUintLoop_not_digits[of ds 0]
  by (auto simp: ParseUint_def allDigits_def)

lemma ParseInt_iff:
  "ParseInt s = Inr v \<longleftrightarrow>
     numericString s \<and> numericValue s = v \<and> - (2 ^ 63) \<le> v \<and> v < 2 ^ 63"
proof (cases s)
  case Nil
  then show ?thesis by (simp add: ParseInt_def numericString_def)
next
  case (Cons c cs)
  define s1 where "s1 = (if isSign c then cs else s)"
  have ns: "numericString s = allDigits s1"
    by (simp add: numericString_def Cons s1_def)
  have nv: "numericValue s = (if c = CHR ''-'' then - int (decimalValue s1) else int (decimalValue s1))"
    by (auto simp: numericValue_def Cons s1_def isSign_def)
  have pi: "ParseInt s = (case ParseUint s1 of
             Inl e \<Rightarrow> Inl e
           | Inr un \<Rightarrow>
               if c \<noteq> CHR ''-'' \<and> un \<ge> 2 ^ 63 then Inl ErrRange
               else if c = CHR ''-'' \<and> un > 2 ^ 63 then Inl ErrRange
               else Inr (if c = CHR ''-'' then - int un else int un))"
    by (simp add: ParseInt_def Cons s1_def Let_def)
  show ?thesis
  proof (cases "allDigits s1")
    case False
    with ParseUint_not_digits[of s1] ns pi show ?thesis by auto
  next
    case True
    then have "list_all isDigit s1" "s1 \<noteq> []" by (auto simp: allDigits_def)
    from ParseUint_digits[OF this] show ?thesis
    proof
      assume a: "ParseUint s1 = Inr (decimalValue s1) \<and> decimalValue s1 \<le> maxUint64"
      show ?thesis using a True ns nv pi by (auto simp: not_le not_less)
    next
      assume a: "ParseUint s1 = Inl ErrRange \<and> decimalValue s1 > maxUint64"
      then have "decimalValue s1 > 2 ^ 63" by (simp add: maxUint64_def)
      with a True ns nv pi show ?thesis by auto
    qed
  qed
qed

lemma Atoi_iff:
  "Atoi s = Inr v \<longleftrightarrow>
     numericString s \<and> numericValue s = v \<and> - (2 ^ 63) \<le> v \<and> v < 2 ^ 63"
proof (cases "0 < length s \<and> length s < 19")
  case False
  then have "Atoi s = ParseInt s" by (auto simp: Atoi_def)
  then show ?thesis by (simp add: ParseInt_iff)
next
  case True
  then obtain c cs where Cons: "s = c # cs" by (cases s) auto
  define s1 where "s1 = (if isSign c then cs else s)"
  have len: "length s1 \<le> 18" using True by (auto simp: s1_def Cons)
  have ns: "numericString s = allDigits s1"
    by (simp add: numericString_def Cons s1_def)
  have nv: "numericValue s = (if c = CHR ''-'' then - int (decimalValue s1) else int (decimalValue s1))"
    by (auto simp: numericValue_def Cons s1_def isSign_def)
  have at: "Atoi s = (if s1 = [] then Inl ErrSyntax
       else if list_all isDigit s1
            then Inr (if c = CHR ''-'' then - int (decimalValue s1) else int (decimalValue s1))
            else Inl ErrSyntax)"
    using True by (auto simp: Atoi_def Cons s1_def Let_def atoiFast_eq decimalValue_def)
  show ?thesis
  proof (cases "allDigits s1")
    case False
    with ns at show ?thesis by (auto simp: allDigits_def)
  next
    case True
    then have d: "list_all isDigit s1" "s1 \<noteq> []" by (auto simp: allDigits_def)
    have "decimalValue s1 < 2 ^ 63" by (rule decimalValue_short[OF d(1) len])
    then have "int (decimalValue s1) < 2 ^ 63" by (simp add: of_nat_less_numeral_power_cancel_iff)
    with d True ns nv at show ?thesis by auto
  qed
qed

subsection \<open>The migration percentage\<close>

lemma parseMigrationPercent_cases:
  "parseMigrationPercent s =
     (if numericString s \<and> 0 \<le> numericValue s \<and> numericValue s \<le> 100
      then (numericValue s, []) else (0, [LogBadMigrationPercent s]))"
proof (cases "Atoi s")
  case (Inl e)
  then have "\<not> (numericString s \<and> - (2 ^ 63) \<le> numericValue s \<and> numericValue s < 2 ^ 63)"
    using Atoi_iff [of s "numericValue s"] by simp
  then have "\<not> (numericString s \<and> 0 \<le> numericValue s \<and> numericValue s \<le> 100)"
    by auto
  with Inl show ?thesis by (simp add: parseMigrationPercent_def)
next
  case (Inr v)
  then have "numericString s \<and> numericValue s = v" using Atoi_iff [of s v] by simp
  with Inr show ?thesis by (auto simp: parseMigrationPercent_def)
qed

lemma loadConfig_percent:
  assumes "loadConfig url_Parse env = Inr (cfg, logged)"
  shows "MoviesMigrationPercent cfg = fst (parseMigrationPercent (getEnv env ''MOVIES_MIGRATION_PERCENT'' ''0''))"
  using assms
  by (auto simp: loadConfig_def Let_def split: sum.splits prod.splits)

lemma loadConfig_isl:
  "isl (loadConfig url_Parse (env(''MOVIES_MIGRATION_PERCENT'' \<mapsto> s))) = isl (loadConfig url_Parse env)"
  by (auto simp: loadConfig_def Let_def getEnv_def split: sum.splits prod.splits)

text \<open>
  Claim C5. \<open>parseMigrationPercent\<close> returns 0 (and logs the value) for every string
  that is not a numeric string and for every numeric string whose value is outside 0..100,
  and returns the integer value of every numeric string whose value is within 0..100. It
  always returns, so the percentage never ends startup: whether \<open>loadConfig\<close> ends
  fatally does not depend on the percentage variable, and the percentage of every
  configuration it produces lies within 0..100.
\<close>

theorem parseMigrationPercent_coerces:
  "(\<not> numericString s \<longrightarrow> parseMigrationPercent s = (0, [LogBadMigrationPercent s]))
   \<and> (numericString s \<and> (numericValue s < 0 \<or> 100 < numericValue s) \<longrightarrow>
        parseMigrationPercent s = (0, [LogBadMigrationPercent s]))
   \<and> (numericString s \<and> 0 \<le> numericValue s \<and> numericValue s \<le> 100 \<longrightarrow>
        parseMigrationPercent s = (numericValue s, []))
   \<and> 0 \<le> fst (parseMigrationPercent s) \<and> fst (parseMigrationPercent s) \<le> 100
   \<and> (\<forall>cfg logged. loadConfig url_Parse env = Inr (cfg, logged) \<longrightarrow>
        0 \<le> MoviesMigrationPercent cfg \<and> MoviesMigrationPercent cfg \<le> 100)
   \<and> isl (loadConfig url_Parse (env(''MOVIES_MIGRATION_PERCENT'' \<mapsto> s)))
       = isl (loadConfig url_Parse env)"
proof -
  have range: "0 \<le> fst (parseMigrationPercent t) \<and> fst (parseMigrationPercent t) \<le> 100" for t
    by (simp add: parseMigrationPercent_cases)
  have cfg: "\<forall>cfg logged. loadConfig url_Parse env = Inr (cfg, logged) \<longrightarrow>
        0 \<le> MoviesMigrationPercent cfg \<and> MoviesMigrationPercent cfg \<le> 100"
    using range by (auto simp: loadConfig_percent)
  show ?thesis
    using range [of s] cfg loadConfig_isl [of url_Parse env s]
    by (auto simp: parseMigrationPercent_cases)
qed

lemmas decimal_eval =
  numericString_def numericValue_def allDigits_def isDigit_def isSign_def
  decimalValue_def digitVal_def

theorem parseMigrationPercent_coerces_witness:
  "\<not> numericString ''4x'' \<and> parseMigrationPercent ''4x'' = (0, [LogBadMigrationPercent ''4x''])
   \<and> numericString ''150'' \<and> numericValue ''150'' = 150
   \<and> parseMigrationPercent ''150'' = (0, [LogBadMigrationPercent ''150''])
   \<and> numericString ''42'' \<and> numericValue ''42'' = 42 \<and> parseMigrationPercent ''42'' = (42, [])
   \<and> loadConfig Some [''MOVIES_MIGRATION_PERCENT'' \<mapsto> ''150''] =
        Inr (\<lparr>Port = ''8000'', MonolithURL = ''http://localhost:8080'',
              MoviesServiceURL = ''http://localhost:8081'',
              EventsServiceURL = ''http://localhost:8082'',
              GradualMigration = False, MoviesMigrationPercent = 0\<rparr>,
             [LogBadMigrationPercent ''150''])"
proof -
  have h1: "\<not> numericString ''4x''" by (simp add: decimal_eval)
  have h2: "numericString ''150'' \<and> numericValue ''150'' = 150" by (simp add: decimal_eval)
  have h3: "numericString ''42'' \<and> numericValue ''42'' = 42" by (simp add: decimal_eval)
  have c1: "parseMigrationPercent ''4x'' = (0, [LogBadMigrationPercent ''4x''])"
    using parseMigrationPercent_coerces [of "''4x''" "Some :: string \<Rightarrow> string option" Map.empty] h1 by simp
  have c2: "parseMigrationPercent ''150'' = (0, [LogBadMigrationPercent ''150''])"
    using parseMigrationPercent_coerces [of "''150''" "Some :: string \<Rightarrow> string option" Map.empty] h2 by simp
  have c3: "parseMigrationPercent ''42'' = (42, [])"
    using parseMigrationPercent_coerces [of "''42''" "Some :: string \<Rightarrow> string option" Map.empty] h3 by simp
  have c4: "loadConfig Some [''MOVIES_MIGRATION_PERCENT'' \<mapsto> ''150''] =
        Inr (\<lparr>Port = ''8000'', MonolithURL = ''http://localhost:8080'',
              MoviesServiceURL = ''http://localhost:8081'',
              EventsServiceURL = ''http://localhost:8082'',
              GradualMigration = False, MoviesMigrationPercent = 0\<rparr>,
             [LogBadMigrationPercent ''150''])"
    by (simp add: loadConfig_def parseURL_def getEnv_def c2)
  from h1 h2 h3 c1 c2 c3 c4 show ?thesis by simp
qed

subsection \<open>Routing\<close>

text \<open>
  Claim C3. For a path with the movies prefix and gradual migration disabled, the decision
  is the monolith with the label "monolith" whatever the configured percentage is, and
  the shared random source is left exactly as it was: no draw is made.
\<close>

theorem routeRequest_movies_disabled:
  assumes "HasPrefix path ''/api/movies''" and "\<not> GradualMigration config"
  shows "routeRequest config path src =
           ((createReverseProxy (MonolithURL config), ''monolith''), src)
         \<and> shouldRouteToMovies config src = (False, src)
         \<and> routeRequest (config\<lparr>MoviesMigrationPercent := p\<rparr>) path src =
           ((createReverseProxy (MonolithURL config), ''monolith''), src)"
  using assms by (simp add: routeRequest_def shouldRouteToMovies_def)


text \<open>
  Claim C2. For a path with the movies prefix and gradual migration enabled, one draw is
  taken from the shared source; it lies in \<open>[0, 100)\<close>, and the movies service is
  chosen exactly when the draw is strictly below the configured percentage (otherwise
  the monolith). Hence a percentage of 0 gives the monolith and a percentage of 100 gives
  the movies service, for every draw.
\<close>

theorem routeRequest_movies_enabled:
  assumes "HasPrefix path ''/api/movies''" and "GradualMigration config"
  shows "0 \<le> fst (Intn 100 src) \<and> fst (Intn 100 src) < 100
         \<and> routeRequest config path src =
             (if fst (Intn 100 src) < MoviesMigrationPercent config
              then (createReverseProxy (MoviesServiceURL config), ''movies-service'')
              else (createReverseProxy (MonolithURL config), ''monolith''),
              snd (Intn 100 src))
         \<and> (MoviesMigrationPercent config = 0 \<longrightarrow>
               fst (routeRequest config path src) =
                 (createReverseProxy (MonolithURL config), ''monolith''))
         \<and> (MoviesMigrationPercent config = 100 \<longrightarrow>
               fst (routeRequest config path src) =
                 (createReverseProxy (MoviesServiceURL config), ''movies-service''))"
proof -
  have range: "0 \<le> fst (Intn 100 src) \<and> fst (Intn 100 src) < 100"
    by (simp add: Intn_def)
  have decision: "routeRequest config path src =
             (if fst (Intn 100 src) < MoviesMigrationPercent config
              then (createReverseProxy (MoviesServiceURL config), ''movies-service'')
              else (createReverseProxy (MonolithURL config), ''monolith''),
              snd (Intn 100 src))"
    using assms by (simp add: routeRequest_def shouldRouteToMovies_def split: prod.split)
  from range decision show ?thesis by auto
qed

theorem routeRequest_movies_enabled_witness:
  "HasPrefix ''/api/movies/7'' ''/api/movies''
   \<and> routeRequest
        \<lparr>Port = ''8000'', MonolithURL = ''mono'', MoviesServiceURL = ''movies'',
         EventsServiceURL = ''events'', GradualMigration = True, MoviesMigrationPercent = 50\<rparr>
        ''/api/movies/7'' \<lparr>outcomes = (\<lambda>i. 42), calls = 0\<rparr>
       = ((createReverseProxy ''movies'', ''movies-service''), \<lparr>outcomes = (\<lambda>i. 42), calls = 1\<rparr>)
   \<and> fst (routeRequest
        \<lparr>Port = ''8000'', MonolithURL = ''mono'', MoviesServiceURL = ''movies'',
         EventsServiceURL = ''events'', GradualMigration = True, MoviesMigrationPercent = 0\<rparr>
        ''/api/movies/7'' \<lparr>outcomes = (\<lambda>i. 0), calls = 0\<rparr>)
       = (createReverseProxy ''mono'', ''monolith'')
   \<and> fst (routeRequest
        \<lparr>Port = ''8000'', MonolithURL = ''mono'', MoviesServiceURL = ''movies'',
         EventsServiceURL = ''events'', GradualMigration = True, MoviesMigrationPercent = 100\<rparr>
        ''/api/movies/7'' \<lparr>outcomes = (\<lambda>i. 99), calls = 0\<rparr>)
       = (createReverseProxy ''movies'', ''movies-service'')"
proof -
  have p: "HasPrefix ''/api/movies/7'' ''/api/movies''" by (simp add: HasPrefix_def)
  show ?thesis
    using p
      routeRequest_movies_enabled [OF p, of
        "\<lparr>Port = ''8000'', MonolithURL = ''mono'', MoviesServiceURL = ''movies'',
          EventsServiceURL = ''events'', GradualMigration = True, MoviesMigrationPercent = 50\<rparr>"
        "\<lparr>outcomes = (\<lambda>i. 42), calls = 0\<rparr>"]
      routeRequest_movies_enabled [OF p, of
        "\<lparr>Port = ''8000'', MonolithURL = ''mono'', MoviesServiceURL = ''movies'',
          EventsServiceURL = ''events'', GradualMigration = True, MoviesMigrationPercent = 0\<rparr>"
        "\<lparr>outcomes = (\<lambda>i. 0), calls = 0\<rparr>"]
      routeRequest_movies_enabled [OF p, of
        "\<lparr>Port = ''8000'', MonolithURL = ''mono'', MoviesServiceURL = ''movies'',
          EventsServiceURL = ''events'', GradualMigration = True, MoviesMigrationPercent = 100\<rparr>"
        "\<lparr>outcomes = (\<lambda>i. 99), calls = 0\<rparr>"]
    by (simp add: Intn_def)
qed

theorem routeRequest_movies_disabled_witness:
  "HasPrefix ''/api/movies'' ''/api/movies''
   \<and> routeRequest
        \<lparr>Port = ''8000'', MonolithURL = ''mono'', MoviesServiceURL = ''movies'',
         EventsServiceURL = ''events'', GradualMigration = False, MoviesMigrationPercent = 100\<rparr>
        ''/api/movies'' \<lparr>outcomes = (\<lambda>i. 0), calls = 5\<rparr>
       = ((createReverseProxy ''mono'', ''monolith''), \<lparr>outcomes = (\<lambda>i. 0), calls = 5\<rparr>)"
proof -
  have p: "HasPrefix ''/api/movies'' ''/api/movies''" by (simp add: HasPrefix_def)
  show ?thesis
    using p
      routeRequest_movies_disabled [OF p, of
        "\<lparr>Port = ''8000'', MonolithURL = ''mono'', MoviesServiceURL = ''movies'',
          EventsServiceURL = ''events'', GradualMigration = False, MoviesMigrationPercent = 100\<rparr>"
        "\<lparr>outcomes = (\<lambda>i. 0), calls = 5\<rparr>" 100]
    by simp
qed

lemma events_prefix_not_movies:
  assumes "HasPrefix path ''/api/events''"
  shows "\<not> HasPrefix path ''/api/movies''"
proof
  assume m: "HasPrefix path ''/api/movies''"
  have "take (length ''/api/movies'') path = ''/api/movies''"
    using m unfolding HasPrefix_def by blast
  moreover have "take (length ''/api/events'') path = ''/api/events''"
    using assms unfolding HasPrefix_def by blast
  moreover have "length ''/api/movies'' = length ''/api/events''" by simp
  ultimately have "''/api/movies'' = ''/api/events''" by metis
  then show False by simp
qed

text \<open>
  Claim C4. A path that has neither the prefix "/api/movies" nor the prefix
  "/api/events" is routed to the monolith with the label "monolith", whatever the
  migration flag and percentage are; a path with the prefix "/api/events" is always
  routed to the events service with the label "events-service". Neither case draws
  from the random source.
\<close>

theorem routeRequest_other_paths:
  "(\<not> HasPrefix path ''/api/movies'' \<and> \<not> HasPrefix path ''/api/events'' \<longrightarrow>
      routeRequest config path src =
        ((createReverseProxy (MonolithURL config), ''monolith''), src))
   \<and> (HasPrefix path ''/api/events'' \<longrightarrow>
      routeRequest config path src =
        ((createReverseProxy (EventsServiceURL config), ''events-service''), src))"
  using events_prefix_not_movies [of path] by (auto simp: routeRequest_def)

theorem routeRequest_other_paths_witness:
  "\<not> HasPrefix ''/api/users/3'' ''/api/movies'' \<and> \<not> HasPrefix ''/api/users/3'' ''/api/events''
   \<and> routeRequest
        \<lparr>Port = ''8000'', MonolithURL = ''mono'', MoviesServiceURL = ''movies'',
         EventsServiceURL = ''events'', GradualMigration = True, MoviesMigrationPercent = 100\<rparr>
        ''/api/users/3'' \<lparr>outcomes = (\<lambda>i. 0), calls = 0\<rparr>
       = ((createReverseProxy ''mono'', ''monolith''), \<lparr>outcomes = (\<lambda>i. 0), calls = 0\<rparr>)
   \<and> HasPrefix ''/api/events/movie'' ''/api/events''
   \<and> routeRequest
        \<lparr>Port = ''8000'', MonolithURL = ''mono'', MoviesServiceURL = ''movies'',
         EventsServiceURL = ''events'', GradualMigration = True, MoviesMigrationPercent = 100\<rparr>
        ''/api/events/movie'' \<lparr>outcomes = (\<lambda>i. 0), calls = 0\<rparr>
       = ((createReverseProxy ''events'', ''events-service''), \<lparr>outcomes = (\<lambda>i. 0), calls = 0\<rparr>)"
  using
    routeRequest_other_paths [of "''/api/users/3''"
        "\<lparr>Port = ''8000'', MonolithURL = ''mono'', MoviesServiceURL = ''movies'',
          EventsServiceURL = ''events'', GradualMigration = True, MoviesMigrationPercent = 100\<rparr>"
        "\<lparr>outcomes = (\<lambda>i. 0), calls = 0\<rparr>"]
    routeRequest_other_paths [of "''/api/events/movie''"
        "\<lparr>Port = ''8000'', MonolithURL = ''mono'', MoviesServiceURL = ''movies'',
          EventsServiceURL = ''events'', GradualMigration = True, MoviesMigrationPercent = 100\<rparr>"
        "\<lparr>outcomes = (\<lambda>i. 0), calls = 0\<rparr>"]
  by (simp add: HasPrefix_def)

section \<open>Properties of the events service\<close>

subsection \<open>The writer\<close>

lemma getKafkaWriter_first:
  "\<not> once w \<Longrightarrow>
     getKafkaWriter env w =
       (Some (initKafkaWriter env),
        w\<lparr>kafkaWriter := Some (initKafkaWriter env), once := True,
          trace := trace w @ [InitKafkaWriter (initKafkaWriter env)]\<rparr>)"
  by (simp add: getKafkaWriter_def emit_def)

lemma getKafkaWriter_ready:
  "writerReady w wr \<Longrightarrow> getKafkaWriter env w = (Some wr, w)"
  by (simp add: getKafkaWriter_def writerReady_def)

lemma getKafkaWriter_establishes:
  "\<not> once w \<Longrightarrow> writerReady (snd (getKafkaWriter env w)) (initKafkaWriter env)"
  by (simp add: getKafkaWriter_first writerReady_def)

lemma writerReady_emit [simp]: "writerReady (emit e w) wr = writerReady w wr"
  by (simp add: writerReady_def emit_def)

lemma trace_emit [simp]: "trace (emit e w) = trace w @ [e]"
  by (simp add: emit_def)

lemma parseEventData_world:
  "snd (parseEventData rt topic r w) = w \<or> snd (parseEventData rt topic r w) = emit (DecodeBody topic) w"
  by (simp add: parseEventData_def)

lemma parseEventData_Inr:
  assumes "fst (parseEventData rt topic r w) = Inr eventData"
  shows "parseEventData rt topic r w = (Inr eventData, emit (DecodeBody topic) w)"
  using assms by (auto simp: parseEventData_def split: if_splits)

lemma sendToKafka_ready:
  assumes "writerReady w wr"
  shows "sendToKafka rt topic eventData w =
           (case Marshal (lib rt) eventData of
              None \<Rightarrow> (Return (Some MarshalError), w)
            | Some eventBytes \<Rightarrow>
                (Return (map_option WriteError
                           (brokerWrite rt \<lparr>Topic = topic, Offset = 0, Value = eventBytes\<rparr>)),
                 emit (WriteMessages wr \<lparr>Topic = topic, Offset = 0, Value = eventBytes\<rparr>) w))"
  using assms by (simp add: sendToKafka_def getKafkaWriter_ready Let_def split: option.splits)

lemma handleEvent_keeps_writer:
  assumes "writerReady w wr"
  shows "writerReady (snd (handleEvent rt topic r w)) wr"
proof (cases "Method r \<noteq> MethodPost")
  case True
  with assms show ?thesis by (simp add: handleEvent_def)
next
  case False
  obtain res w1 where p: "parseEventData rt topic r w = (res, w1)" by (cases "parseEventData rt topic r w")
  from parseEventData_world [of rt topic r w] p assms have r1: "writerReady w1 wr" by auto
  show ?thesis
  proof (cases res)
    case (Inl err)
    with False p r1 show ?thesis by (simp add: handleEvent_def)
  next
    case (Inr eventData)
    with False p r1 show ?thesis
      by (simp add: handleEvent_def sendToKafka_ready sendSuccessResponse_def Let_def
               split: option.splits)
  qed
qed

lemma getKafkaWriterTimes_ready:
  "writerReady w wr \<Longrightarrow> getKafkaWriterTimes n env w = (replicate n (Some wr), w)"
  by (induction n) (simp_all add: getKafkaWriter_ready)

text \<open>
  Calls of \<open>getKafkaWriter\<close> taken one after the other, starting before the first use:
  every call returns the same writer, the one \<open>initKafkaWriter\<close> builds, and the
  writer is built exactly once, by the first call.
\<close>

theorem getKafkaWriter_sequential_once:
  assumes "\<not> once w"
  shows "getKafkaWriterTimes (Suc n) env w =
           (replicate (Suc n) (Some (initKafkaWriter env)),
            w\<lparr>kafkaWriter := Some (initKafkaWriter env), once := True,
              trace := trace w @ [InitKafkaWriter (initKafkaWriter env)]\<rparr>)"
proof -
  let ?w1 = "w\<lparr>kafkaWriter := Some (initKafkaWriter env), once := True,
               trace := trace w @ [InitKafkaWriter (initKafkaWriter env)]\<rparr>"
  have first: "getKafkaWriter env w = (Some (initKafkaWriter env), ?w1)"
    by (rule getKafkaWriter_first [OF assms])
  have "writerReady ?w1 (initKafkaWriter env)" by (simp add: writerReady_def)
  then have rest: "getKafkaWriterTimes n env ?w1 = (replicate n (Some (initKafkaWriter env)), ?w1)"
    by (rule getKafkaWriterTimes_ready)
  show ?thesis by (simp add: first rest)
qed

theorem getKafkaWriter_sequential_once_witness:
  "\<not> once \<lparr>kafkaWriter = None, once = False, trace = []\<rparr>
   \<and> getKafkaWriterTimes 3 Map.empty \<lparr>kafkaWriter = None, once = False, trace = []\<rparr> =
       ([Some exampleWriter, Some exampleWriter, Some exampleWriter], servingWorld)"
proof -
  have h: "\<not> once \<lparr>kafkaWriter = None, once = False, trace = []\<rparr>" by simp
  have i: "initKafkaWriter Map.empty = exampleWriter"
    by (simp add: initKafkaWriter_def exampleWriter_def getEnv_def)
  have three: "(3::nat) = Suc 2" by simp
  show ?thesis
    using h getKafkaWriter_sequential_once [OF h, of 2 Map.empty]
    unfolding three
    by (simp add: i servingWorld_def numeral_2_eq_2)
qed

subsection \<open>The event endpoints\<close>

text \<open>
  Claim C6. A request to one of the three event endpoints whose method is not POST is
  answered 405 (method not allowed) through \<open>http.Error\<close>, and the world is left as it
  was: no body is decoded, no writer is built, nothing is written to the broker and
  nothing is logged.
\<close>

theorem handleEvent_method_not_allowed:
  assumes "Method r \<noteq> MethodPost"
    and "path = ''/api/events/movie'' \<or> path = ''/api/events/user'' \<or> path = ''/api/events/payment''"
  shows "handleEvent rt topic r w =
           (Return (httpError (TextLine msgMethodNotSupported) StatusMethodNotAllowed), w)
         \<and> serveHTTP rt now path r w =
           Some (Return \<lparr>status = 405,
                         headers = [(''Content-Type'', ''text/plain; charset=utf-8''),
                                    (''X-Content-Type-Options'', ''nosniff'')],
                         content = TextLine msgMethodNotSupported\<rparr>, w)"
  using assms
  by (auto simp: handleEvent_def serveHTTP_def registered_def httpError_def
                 StatusMethodNotAllowed_def)

theorem handleEvent_method_not_allowed_witness:
  "Method \<lparr>Method = ''GET'', Body = NoJSON\<rparr> \<noteq> MethodPost
   \<and> serveHTTP (exampleRuntime (\<lambda>m. None)) 0 ''/api/events/movie''
        \<lparr>Method = ''GET'', Body = NoJSON\<rparr> servingWorld
     = Some (Return \<lparr>status = 405,
                     headers = [(''Content-Type'', ''text/plain; charset=utf-8''),
                                (''X-Content-Type-Options'', ''nosniff'')],
                     content = TextLine msgMethodNotSupported\<rparr>,
             servingWorld)"
proof -
  have m: "Method \<lparr>Method = ''GET'', Body = NoJSON\<rparr> \<noteq> MethodPost"
    by (simp add: MethodPost_def)
  show ?thesis
    using m handleEvent_method_not_allowed [OF m, of "''/api/events/movie''"
        "exampleRuntime (\<lambda>m. None)" movieTopic servingWorld 0]
    by simp
qed

lemma handleEvent_marshal_failure:
  assumes "Method r = MethodPost"
    and "fst (parseEventData rt topic r w) = Inr eventData"
    and "Marshal (lib rt) eventData = None"
  shows "handleEvent rt topic r w =
           (Return (httpError (TextLine msgProcessingError) StatusInternalServerError),
            w\<lparr>trace := trace w @ [DecodeBody topic, LogPrintf (LogSendFailed MarshalError)]\<rparr>)"
proof -
  have p: "parseEventData rt topic r w = (Inr eventData, emit (DecodeBody topic) w)"
    by (rule parseEventData_Inr [OF assms(2)])
  show ?thesis
    using assms(1,3) p by (simp add: handleEvent_def sendToKafka_def emit_def)
qed

text \<open>
  Claim C7. A POST request whose body decodes, served once the writer is set: when the
  write to the broker fails, the answer is 500 and the failure is logged, after exactly
  one call of \<open>WriteMessages\<close> (no second attempt); when the write succeeds, the
  answer is 201 with the JSON encoding of a map whose "status" is "success" and which
  has a "message", after that one write and the log line of the message.
\<close>

theorem handleEvent_publish_outcomes:
  assumes "Method r = MethodPost"
    and "fst (parseEventData rt topic r w) = Inr eventData"
    and "writerReady w wr"
    and "Marshal (lib rt) eventData = Some eventBytes"
  shows "(\<forall>err.
            brokerWrite rt \<lparr>Topic = topic, Offset = 0, Value = eventBytes\<rparr> = Some err \<longrightarrow>
            handleEvent rt topic r w =
              (Return \<lparr>status = 500,
                       headers = [(''Content-Type'', ''text/plain; charset=utf-8''),
                                  (''X-Content-Type-Options'', ''nosniff'')],
                       content = TextLine msgProcessingError\<rparr>,
               w\<lparr>trace := trace w @
                    [DecodeBody topic,
                     WriteMessages wr \<lparr>Topic = topic, Offset = 0, Value = eventBytes\<rparr>,
                     LogPrintf (LogSendFailed (WriteError err))]\<rparr>))
         \<and> (brokerWrite rt \<lparr>Topic = topic, Offset = 0, Value = eventBytes\<rparr> = None \<longrightarrow>
            handleEvent rt topic r w =
              (Return \<lparr>status = 201,
                       headers = [(''Content-Type'', ''application/json'')],
                       content = EncodedMap [(''message'', GoString msgProcessed),
                                             (''status'', GoString ''success'')]\<rparr>,
               w\<lparr>trace := trace w @
                    [DecodeBody topic,
                     WriteMessages wr \<lparr>Topic = topic, Offset = 0, Value = eventBytes\<rparr>,
                     LogPrintf (LogMessageSent topic eventBytes)]\<rparr>))"
proof -
  have p: "parseEventData rt topic r w = (Inr eventData, emit (DecodeBody topic) w)"
    by (rule parseEventData_Inr [OF assms(2)])
  have ready: "writerReady (emit (DecodeBody topic) w) wr"
    using assms(3) by simp
  note send = sendToKafka_ready [OF ready, of rt topic eventData]
  show ?thesis
    using assms(1,4) p send
    by (simp add: handleEvent_def sendSuccessResponse_def StatusCreated_def
                  StatusInternalServerError_def emit_def httpError_def)
qed

lemma servingWorld_ready: "writerReady servingWorld exampleWriter"
  by (simp add: writerReady_def servingWorld_def)

lemma servingWorld_is_start:
  "snd (getKafkaWriter Map.empty \<lparr>kafkaWriter = None, once = False, trace = []\<rparr>) = servingWorld"
  by (simp add: getKafkaWriter_def servingWorld_def exampleWriter_def initKafkaWriter_def
                getEnv_def emit_def)

lemmas decode_eval =
  parseEventData_def decodeStruct_def setMovieField_def fieldMatches_def zeroMovieEvent_def
  movieTopic_def userTopic_def paymentTopic_def postJSON_def

lemma decode_complete_movie:
  "fst (parseEventData rt movieTopic
          (postJSON (JObject [(''movie_id'', JNumber ''1''), (''title'', JString ''Dune''),
                               (''action'', JString ''viewed''), (''user_id'', JNumber ''42'')])) w)
     = Inr (Movie \<lparr>MovieID = 1, Title = ''Dune'', MovieEvent.Action = ''viewed'',
                   MovieEvent.UserID = 42\<rparr>)"
  by (simp add: decode_eval ParseInt_def ParseUint_def isSign_def isDigit_def digitVal_def
                maxUint64_def)

lemma decode_incomplete_movie:
  "fst (parseEventData rt movieTopic (postJSON (JObject [(''title'', JString ''Dune'')])) w)
     = Inr (Movie \<lparr>MovieID = 0, Title = ''Dune'', MovieEvent.Action = '''',
                   MovieEvent.UserID = 0\<rparr>)"
  by (simp add: decode_eval)

theorem handleEvent_publish_outcomes_witness:
  "handleEvent (exampleRuntime (\<lambda>m. Some ''dial tcp: connection refused'')) movieTopic
     (postJSON (JObject [(''movie_id'', JNumber ''1''), (''title'', JString ''Dune''),
                          (''action'', JString ''viewed''), (''user_id'', JNumber ''42'')]))
     servingWorld
   = (Return \<lparr>status = 500,
              headers = [(''Content-Type'', ''text/plain; charset=utf-8''),
                         (''X-Content-Type-Options'', ''nosniff'')],
              content = TextLine msgProcessingError\<rparr>,
      servingWorld\<lparr>trace := trace servingWorld @
        [DecodeBody movieTopic,
         WriteMessages exampleWriter
           \<lparr>Topic = movieTopic, Offset = 0,
            Value = ''{\"movie_id\":1,\"title\":\"Dune\",\"action\":\"viewed\",\"user_id\":42}''\<rparr>,
         LogPrintf (LogSendFailed (WriteError ''dial tcp: connection refused''))]\<rparr>)
   \<and> handleEvent (exampleRuntime (\<lambda>m. None)) movieTopic
     (postJSON (JObject [(''movie_id'', JNumber ''1''), (''title'', JString ''Dune''),
                          (''action'', JString ''viewed''), (''user_id'', JNumber ''42'')]))
     servingWorld
   = (Return \<lparr>status = 201,
              headers = [(''Content-Type'', ''application/json'')],
              content = EncodedMap [(''message'', GoString msgProcessed),
                                    (''status'', GoString ''success'')]\<rparr>,
      servingWorld\<lparr>trace := trace servingWorld @
        [DecodeBody movieTopic,
         WriteMessages exampleWriter
           \<lparr>Topic = movieTopic, Offset = 0,
            Value = ''{\"movie_id\":1,\"title\":\"Dune\",\"action\":\"viewed\",\"user_id\":42}''\<rparr>,
         LogPrintf (LogMessageSent movieTopic
            ''{\"movie_id\":1,\"title\":\"Dune\",\"action\":\"viewed\",\"user_id\":42}'')]\<rparr>)"
proof -
  let ?r = "postJSON (JObject [(''movie_id'', JNumber ''1''), (''title'', JString ''Dune''),
                          (''action'', JString ''viewed''), (''user_id'', JNumber ''42'')])"
  let ?ev = "Movie \<lparr>MovieID = 1, Title = ''Dune'', MovieEvent.Action = ''viewed'',
                   MovieEvent.UserID = 42\<rparr> :: (int, int) event"
  have post: "Method ?r = MethodPost" by (simp add: postJSON_def MethodPost_def)
  have m: "Marshal (lib (exampleRuntime b)) ?ev
             = Some ''{\"movie_id\":1,\"title\":\"Dune\",\"action\":\"viewed\",\"user_id\":42}''" for b
    by (simp add: exampleRuntime_def exampleLib_def exampleMarshal_def)
  have fail: "brokerWrite (exampleRuntime (\<lambda>m. Some ''dial tcp: connection refused'')) msg
                = Some ''dial tcp: connection refused''" for msg
    by (simp add: exampleRuntime_def)
  have ok: "brokerWrite (exampleRuntime (\<lambda>m. None)) msg = None" for msg
    by (simp add: exampleRuntime_def)
  show ?thesis
    using
      handleEvent_publish_outcomes [OF post decode_complete_movie servingWorld_ready
        m [of "\<lambda>m. Some ''dial tcp: connection refused''"]]
      handleEvent_publish_outcomes [OF post decode_complete_movie servingWorld_ready
        m [of "\<lambda>m. None"]]
      fail ok
    by simp
qed

text \<open>
  Claim C1 (the code departs from it). A POST to the movie endpoint whose body is the
  JSON object with only the title set decodes without error: the fields that are
  missing stay at their zero values, and nothing checks them. Once the writer is set and
  the broker accepts the write, the event is written to the topic and the answer is 201,
  not 400.
\<close>

theorem handleEvent_accepts_incomplete_movie:
  assumes "writerReady w wr"
    and "Marshal (lib rt) (Movie \<lparr>MovieID = 0, Title = ''Dune'', MovieEvent.Action = '''',
                                   MovieEvent.UserID = 0\<rparr>) = Some eventBytes"
    and "brokerWrite rt \<lparr>Topic = movieTopic, Offset = 0, Value = eventBytes\<rparr> = None"
  shows "handleEvent rt movieTopic (postJSON (JObject [(''title'', JString ''Dune'')])) w =
           (Return \<lparr>status = 201,
                    headers = [(''Content-Type'', ''application/json'')],
                    content = EncodedMap [(''message'', GoString msgProcessed),
                                          (''status'', GoString ''success'')]\<rparr>,
            w\<lparr>trace := trace w @
                 [DecodeBody movieTopic,
                  WriteMessages wr \<lparr>Topic = movieTopic, Offset = 0, Value = eventBytes\<rparr>,
                  LogPrintf (LogMessageSent movieTopic eventBytes)]\<rparr>)"
proof -
  let ?r = "postJSON (JObject [(''title'', JString ''Dune'')])"
  let ?ev = "Movie \<lparr>MovieID = 0, Title = ''Dune'', MovieEvent.Action = '''',
                   MovieEvent.UserID = 0\<rparr> :: ('a, 'b) event"
  have p: "parseEventData rt movieTopic ?r w = (Inr ?ev, emit (DecodeBody movieTopic) w)"
    by (rule parseEventData_Inr [OF decode_incomplete_movie])
  have ready: "writerReady (emit (DecodeBody movieTopic) w) wr"
    using assms(1) by simp
  note send = sendToKafka_ready [OF ready, of rt movieTopic ?ev]
  have post: "Method ?r = MethodPost" by (simp add: postJSON_def MethodPost_def)
  show ?thesis
    using post p send assms(2,3)
    by (simp add: handleEvent_def sendSuccessResponse_def StatusCreated_def emit_def)
qed

theorem handleEvent_accepts_incomplete_movie_witness:
  "handleEvent (exampleRuntime (\<lambda>m. None)) movieTopic
     (postJSON (JObject [(''title'', JString ''Dune'')])) servingWorld
   = (Return \<lparr>status = 201,
              headers = [(''Content-Type'', ''application/json'')],
              content = EncodedMap [(''message'', GoString msgProcessed),
                                    (''status'', GoString ''success'')]\<rparr>,
      \<lparr>kafkaWriter = Some exampleWriter, once = True,
       trace =
        [InitKafkaWriter exampleWriter,
         DecodeBody ''movie-events'',
         WriteMessages exampleWriter
           \<lparr>Topic = ''movie-events'', Offset = 0,
            Value = ''{\"movie_id\":0,\"title\":\"Dune\",\"action\":\"\",\"user_id\":0}''\<rparr>,
         LogPrintf (LogMessageSent ''movie-events''
            ''{\"movie_id\":0,\"title\":\"Dune\",\"action\":\"\",\"user_id\":0}'')]\<rparr>)"
proof -
  have m: "Marshal (lib (exampleRuntime (\<lambda>m. None)))
             (Movie \<lparr>MovieID = 0, Title = ''Dune'', MovieEvent.Action = '''',
                     MovieEvent.UserID = 0\<rparr>)
             = Some ''{\"movie_id\":0,\"title\":\"Dune\",\"action\":\"\",\"user_id\":0}''"
    by (simp add: exampleRuntime_def exampleLib_def exampleMarshal_def)
  have ok: "brokerWrite (exampleRuntime (\<lambda>m. None)) msg = None" for msg
    by (simp add: exampleRuntime_def)
  show ?thesis
    using handleEvent_accepts_incomplete_movie [OF servingWorld_ready m ok]
    by (simp add: servingWorld_def movieTopic_def)
qed

subsection \<open>The health endpoint\<close>

text \<open>
  Claim C10. The handler registered for "/api/events/health" answers every request,
  whatever its method and body, with 200, the JSON content type, and the encoding of a
  map with "status" true, "service" "events-service" and "timestamp" the current time
  converted to UTC; it leaves the world as it was. The method test of the three event
  endpoints is not part of it.
\<close>

theorem health_any_method:
  "serveHTTP rt now ''/api/events/health'' r w =
     Some (Return \<lparr>status = 200,
                   headers = [(''Content-Type'', ''application/json'')],
                   content = EncodedMap [(''service'', GoString ''events-service''),
                                         (''status'', GoBool True),
                                         (''timestamp'', GoTime (TimeUTC (lib rt) now))]\<rparr>, w)
   \<and> healthCheckHandler rt now (r\<lparr>Method := m\<rparr>) = healthCheckHandler rt now r"
  by (simp add: serveHTTP_def registered_def healthCheckHandler_def StatusOK_def)

subsection \<open>The consumers\<close>

lemma readLoop_until_error:
  "readLoop topic (map Inr ms @ Inl err # rest) tr =
     (Terminated,
      tr @ consumed ms @ [ReadMessage (Inl err), LogPrintf (LogReadFailed topic err)], rest)"
  by (induction ms arbitrary: tr) (simp_all add: consumed_def)

lemma readLoop_no_error:
  "readLoop topic (map Inr ms) tr = (Blocked, tr @ consumed ms, [])"
  by (induction ms arbitrary: tr) (simp_all add: consumed_def)

text \<open>
  Claim C8. A consumer whose reads deliver the messages \<open>ms\<close> and then fail with
  \<open>err\<close> logs each of those messages, logs the failure, closes its reader and
  returns: the task is terminated. Whatever the broker would have delivered afterwards
  (\<open>rest\<close>) is never read and never logged. As long as no read fails, the task stays
  in its loop. \<open>main\<close> starts exactly one consumer per topic and none is started again.
\<close>

theorem consumeTopic_stops_at_first_error:
  "consumeTopic env topic (map Inr ms @ Inl err # rest) =
     (Terminated,
      [NewReader (readerConfig env topic), LogPrintf (LogConsumerStarted topic)]
        @ consumed ms
        @ [ReadMessage (Inl err), LogPrintf (LogReadFailed topic err), ReaderClose, WaitGroupDone],
      rest)
   \<and> consumeTopic env topic (map Inr ms) =
     (Blocked,
      [NewReader (readerConfig env topic), LogPrintf (LogConsumerStarted topic)] @ consumed ms,
      [])
   \<and> map fst (startConsumers env feed) = [movieTopic, userTopic, paymentTopic]
   \<and> distinct (map fst (startConsumers env feed))"
  by (simp add: consumeTopic_def readLoop_until_error readLoop_no_error startConsumers_def
                topics_def movieTopic_def userTopic_def paymentTopic_def)

end
